theory Spec2Isabelle
  imports Main
begin

section \<open>The playground's orchestration layer (src/src/App.tsx)\<close>

text \<open>
  The component \<open>App\<close> keeps three pieces of React state (\<open>code\<close>, \<open>output\<close>,
  \<open>isRunning\<close>) and two references to the mounted editor widget. Its handlers are
  embedded as functions on a record of that state. The static analyzer and the
  execution engine come from the package \<open>aviator-parser\<close>; their behaviour is a
  parameter of every handler that calls them, so each theorem holds for every analyzer
  and every engine.
\<close>

subsection \<open>Values, thrown values and the host's conversions\<close>

text \<open>
  The values of the host language are a type parameter \<open>'v\<close>. Anything can be thrown
  (\<open>catch (e: any)\<close>), so a thrown value is a value too, and a computation that may
  throw returns \<open>'v + 'a\<close>, with \<open>Inl\<close> for the exception.

  The code uses three operations of the host on such values, and each of them can
  throw: the call \<open>String(x)\<close>, the conversion a template literal applies to \<open>${x}\<close>,
  and the property read \<open>x.message\<close>. They are a parameter of the model.
\<close>

record 'v host =
  String_of :: "'v \<Rightarrow> 'v + string"
  template_of :: "'v \<Rightarrow> 'v + string"
  message_of :: "'v \<Rightarrow> 'v + 'v"

text \<open>
  For the examples, a fragment of the host's values with these three operations as
  JavaScript defines them: \<open>undefined\<close>, \<open>null\<close>, strings, symbols (by description),
  and the objects \<open>new Error(m)\<close> and \<open>new TypeError(m)\<close> (by message). \<open>String\<close> converts
  a symbol, the template literal throws a \<open>TypeError\<close> on it. Reading \<open>.message\<close> throws
  a \<open>TypeError\<close> on \<open>undefined\<close> and \<open>null\<close>, gives \<open>undefined\<close> on a string or a
  symbol, and the message on an error object. (The messages of the two \<open>TypeError\<close>s are
  worded as V8 words them.)
\<close>

datatype jsval =
    JsUndefined
  | JsNull
  | JsString string
  | JsSymbol string
  | JsError string
  | JsTypeError string

fun js_String :: "jsval \<Rightarrow> jsval + string" where
  "js_String JsUndefined = Inr ''undefined''"
| "js_String JsNull = Inr ''null''"
| "js_String (JsString s) = Inr s"
| "js_String (JsSymbol d) = Inr (''Symbol('' @ d @ '')'')"
| "js_String (JsError m) = Inr (if m = [] then ''Error'' else ''Error: '' @ m)"
| "js_String (JsTypeError m) = Inr (if m = [] then ''TypeError'' else ''TypeError: '' @ m)"

fun js_template :: "jsval \<Rightarrow> jsval + string" where
  "js_template (JsSymbol d) = Inl (JsTypeError ''Cannot convert a Symbol value to a string'')"
| "js_template v = js_String v"

definition cannot_read_message :: "string \<Rightarrow> jsval" where
  "cannot_read_message what =
     JsTypeError (''Cannot read properties of '' @ what @ '' (reading ''
                   @ [CHR 0x27] @ ''message'' @ [CHR 0x27] @ '')'')"

fun js_message :: "jsval \<Rightarrow> jsval + jsval" where
  "js_message JsUndefined = Inl (cannot_read_message ''undefined'')"
| "js_message JsNull = Inl (cannot_read_message ''null'')"
| "js_message (JsString s) = Inr JsUndefined"
| "js_message (JsSymbol d) = Inr JsUndefined"
| "js_message (JsError m) = Inr (JsString m)"
| "js_message (JsTypeError m) = Inr (JsString m)"

definition js :: "jsval host" where
  "js = \<lparr>String_of = js_String, template_of = js_template, message_of = js_message\<rparr>"

subsection \<open>Diagnostics and markers\<close>

text \<open>What \<open>StaticAnalyzer.analyze\<close> returns for one issue: \<open>d.line\<close>, \<open>d.message\<close>, \<open>d.severity\<close>.\<close>

record diagnostic =
  line :: int
  message :: string
  severity :: int

text \<open>The members of \<open>monaco.MarkerSeverity\<close>.\<close>

datatype MarkerSeverity = Hint | Info | Warning | Error

text \<open>
  The object literal built in \<open>analyzeCode\<close>; its \<open>message\<close> and \<open>severity\<close> members carry
  the prefix \<open>marker_\<close> here, since the diagnostic's fields have the same names.
\<close>

record marker =
  startLineNumber :: int
  startColumn :: int
  endLineNumber :: int
  endColumn :: int
  marker_message :: string
  marker_severity :: MarkerSeverity

subsection \<open>Application state\<close>

text \<open>
  \<open>editorRef\<close> and \<open>monacoRef\<close> record whether \<open>editorRef.current\<close> and
  \<open>monacoRef.current\<close> are set (they are tested for truthiness only). \<open>modelMarkers\<close> is
  the marker set of owner \<open>aviator\<close> on the editor's model, which
  \<open>monaco.editor.setModelMarkers\<close> replaces. \<open>console\<close> is what \<open>console.error\<close> has logged.
\<close>

record 'v app =
  code :: string
  "output" :: "string list"
  isRunning :: bool
  editorRef :: bool
  monacoRef :: bool
  modelMarkers :: "marker list"
  console :: "(string \<times> 'v) list"

text \<open>The state of a freshly rendered component, for a starting document \<open>code0\<close>.\<close>

definition initial :: "string \<Rightarrow> 'v app" where
  "initial code0 =
     \<lparr>code = code0, output = [], isRunning = False, editorRef = False, monacoRef = False,
      modelMarkers = [], console = []\<rparr>"

subsection \<open>analyzeCode\<close>

text \<open>\<open>d.severity === 1 ? monaco.MarkerSeverity.Error : monaco.MarkerSeverity.Warning\<close>\<close>

definition markerSeverity :: "int \<Rightarrow> MarkerSeverity" where
  "markerSeverity sev = (if sev = 1 then Error else Warning)"

text \<open>The function mapped over the diagnostics.\<close>

definition toMarker :: "diagnostic \<Rightarrow> marker" where
  "toMarker d =
     \<lparr>startLineNumber = line d,
      startColumn = 1,
      endLineNumber = line d,
      endColumn = 1000,
      marker_message = message d,
      marker_severity = markerSeverity (severity d)\<rparr>"

text \<open>
  The analyzer (\<open>new StaticAnalyzer().analyze\<close>) is any function from the text to a list
  of diagnostics or an exception. \<open>analyzeCode_try\<close> is the body of the \<open>try\<close> block: the
  markers are replaced only after the analyzer has returned.
\<close>

type_synonym 'v analyzer = "string \<Rightarrow> 'v + diagnostic list"

definition analyzeCode_try :: "'v analyzer \<Rightarrow> string \<Rightarrow> 'v app \<Rightarrow> 'v + 'v app" where
  "analyzeCode_try analyze txt s =
     (case analyze txt of
        Inl e \<Rightarrow> Inl e
      | Inr diagnostics \<Rightarrow> Inr (s\<lparr>modelMarkers := map toMarker diagnostics\<rparr>))"

text \<open>The \<open>catch\<close> clause logs the exception and completes normally.\<close>

definition analyzeCode :: "'v analyzer \<Rightarrow> string \<Rightarrow> 'v app \<Rightarrow> 'v + 'v app" where
  "analyzeCode analyze txt s =
     (case analyzeCode_try analyze txt s of
        Inr s' \<Rightarrow> Inr s'
      | Inl e \<Rightarrow> Inr (s\<lparr>console := console s @ [(''Analysis failed'', e)]\<rparr>))"

subsection \<open>handleEditorDidMount and handleEditorChange\<close>

text \<open>
  Mounting stores both references and analyses the starting document. (The registration
  of the language and of its tokenizer table touches nothing modelled here.)
\<close>

definition handleEditorDidMount :: "'v analyzer \<Rightarrow> 'v app \<Rightarrow> 'v + 'v app" where
  "handleEditorDidMount analyze s =
     analyzeCode analyze (code s) (s\<lparr>editorRef := True, monacoRef := True\<rparr>)"

text \<open>The change event carries \<open>string | undefined\<close>: \<open>None\<close> is \<open>undefined\<close>.\<close>

definition handleEditorChange :: "'v analyzer \<Rightarrow> string option \<Rightarrow> 'v app \<Rightarrow> 'v + 'v app" where
  "handleEditorChange analyze v s =
     (case v of
        None \<Rightarrow> Inr s
      | Some txt \<Rightarrow>
          (let s1 = s\<lparr>code := txt\<rparr>
           in if editorRef s1 \<and> monacoRef s1 then analyzeCode analyze txt s1 else Inr s1))"

subsection \<open>The execution engine and its capture context\<close>

text \<open>\<open>Array.prototype.push\<close> appends and returns the new length.\<close>

definition push :: "'a \<Rightarrow> 'a list \<Rightarrow> nat \<times> 'a list" where
  "push x xs = (length (xs @ [x]), xs @ [x])"

text \<open>
  A call \<open>xs.push(a)\<close> whose argument expression may throw: the argument is evaluated
  first, and when it throws nothing is pushed and the exception goes to the caller.
\<close>

definition push_arg :: "'e + 'a \<Rightarrow> 'a list \<Rightarrow> ('e + nat) \<times> 'a list" where
  "push_arg a xs =
     (case a of
        Inl e \<Rightarrow> (Inl e, xs)
      | Inr x \<Rightarrow> (case push x xs of (n, xs') \<Rightarrow> (Inr n, xs')))"

text \<open>
  The context object handed to \<open>execute\<close>. Each member takes the argument and the array
  \<open>currentOutput\<close>; it returns what \<open>push\<close> returned, or throws what \<open>String(msg)\<close>
  threw, together with the array as it is afterwards.
\<close>

record 'v capture_context =
  print :: "'v \<Rightarrow> string list \<Rightarrow> ('v + nat) \<times> string list"
  println :: "'v \<Rightarrow> string list \<Rightarrow> ('v + nat) \<times> string list"
  p :: "'v \<Rightarrow> string list \<Rightarrow> ('v + nat) \<times> string list"

definition "context" :: "'v host \<Rightarrow> 'v capture_context" where
  "context h =
     \<lparr>print = (\<lambda>msg. push_arg (String_of h msg)),
      println = (\<lambda>msg. push_arg (String_of h msg)),
      p = (\<lambda>msg. push_arg (String_of h msg))\<rparr>"

text \<open>
  The engine is opaque. During one synchronous call of \<open>execute\<close> it may call the
  members of the context any number of times, in any order, see how each call ends
  (what it returned, or what it threw), and then return a value or throw one. That is
  a tree: \<open>Call f v k\<close> calls member \<open>f\<close> with argument \<open>v\<close> and goes on as \<open>k r\<close>, where \<open>r\<close>
  is how the call ended. The engine as a whole maps a source text to such a tree. A
  call of \<open>execute\<close> that never returns has no tree; every statement below is about
  runs that resolve.
\<close>

datatype fname = Print | Println | P

datatype 'v script =
    Call fname 'v "'v + nat \<Rightarrow> 'v script"
  | Return 'v
  | Throw 'v

type_synonym 'v engine = "string \<Rightarrow> 'v script"

text \<open>Looking a member up by name, as the engine does.\<close>

fun member ::
  "'v capture_context \<Rightarrow> fname \<Rightarrow> 'v \<Rightarrow> string list \<Rightarrow> ('v + nat) \<times> string list" where
  "member ctx Print = print ctx"
| "member ctx Println = println ctx"
| "member ctx P = p ctx"

text \<open>
  Running the engine's tree against a context and the array the context writes to: the
  outcome of \<open>execute\<close> (\<open>Inr\<close> the returned value, \<open>Inl\<close> the thrown one) and the array
  as the calls left it.
\<close>

primrec execute_script ::
  "'v capture_context \<Rightarrow> 'v script \<Rightarrow> string list \<Rightarrow> ('v + 'v) \<times> string list" where
  "execute_script ctx (Return v) buf = (Inr v, buf)"
| "execute_script ctx (Throw e) buf = (Inl e, buf)"
| "execute_script ctx (Call f v k) buf =
     (case member ctx f v buf of (r, buf') \<Rightarrow> execute_script ctx (k r) buf')"

text \<open>
  The calls the engine makes during that run, in call order: the name it used and the
  argument it passed.
\<close>

primrec calls_made :: "'v capture_context \<Rightarrow> 'v script \<Rightarrow> string list \<Rightarrow> (fname \<times> 'v) list" where
  "calls_made ctx (Return v) buf = []"
| "calls_made ctx (Throw e) buf = []"
| "calls_made ctx (Call f v k) buf =
     (case member ctx f v buf of (r, buf') \<Rightarrow> (f, v) # calls_made ctx (k r) buf')"

text \<open>
  The lines these calls emit, in call order: the string form of each argument that has
  one. A call whose argument \<open>String\<close> cannot convert throws and emits no line.
\<close>

fun lines_emitted :: "'v host \<Rightarrow> (fname \<times> 'v) list \<Rightarrow> string list" where
  "lines_emitted h [] = []"
| "lines_emitted h ((f, v) # cs) =
     (case String_of h v of
        Inl e \<Rightarrow> lines_emitted h cs
      | Inr ln \<Rightarrow> ln # lines_emitted h cs)"

subsection \<open>runCode\<close>

text \<open>The part of \<open>runCode\<close> that runs at once: \<open>setIsRunning(true); setOutput([])\<close>.\<close>

definition runCode_begin :: "'v app \<Rightarrow> 'v app" where
  "runCode_begin s = s\<lparr>isRunning := True, output := []\<rparr>"

text \<open>
  The \<open>try\<close> block of the callback handed to \<open>setTimeout\<close>; \<open>code0\<close> is the text the
  closure captured. It runs the engine against a fresh array and, when \<open>execute\<close>
  returns, builds the result line with a template literal. It ends with the array it
  passes to \<open>setOutput\<close> (\<open>Inr\<close>), or with the exception that reaches the \<open>catch\<close> clause
  (\<open>Inl\<close>): what \<open>execute\<close> threw, or what the template literal threw on the result.
\<close>

definition runCode_try :: "'v host \<Rightarrow> 'v engine \<Rightarrow> string \<Rightarrow> 'v + string list" where
  "runCode_try h execute code0 =
     (let currentOutput = [];
          ctx = context h
      in case execute_script ctx (execute code0) currentOutput of
           (Inl e, currentOutput') \<Rightarrow> Inl e
         | (Inr result, currentOutput') \<Rightarrow>
             (case template_of h result of
                Inl e \<Rightarrow> Inl e
              | Inr r \<Rightarrow> Inr (currentOutput' @ [''\<newline>Result: '' @ r])))"

text \<open>
  The \<open>catch\<close> clause hands \<open>setOutput\<close> the function
  \<open>prev => [...prev, `\nError: ${e.message}`]\<close>. Its body, with the read of \<open>e.message\<close>
  and the template literal, runs when the function is applied to the previous output.
\<close>

definition error_updater :: "'v host \<Rightarrow> 'v \<Rightarrow> string list \<Rightarrow> 'v + string list" where
  "error_updater h e prev =
     (case message_of h e of
        Inl x \<Rightarrow> Inl x
      | Inr m \<Rightarrow>
          (case template_of h m of
             Inl x \<Rightarrow> Inl x
           | Inr t \<Rightarrow> Inr (prev @ [''\<newline>Error: '' @ t])))"

text \<open>
  The callback and the render that follows it. The callback itself only queues state
  updates: the new output of the \<open>try\<close> block, or the updater of the \<open>catch\<close> clause, and
  then \<open>setIsRunning(false)\<close> from the \<open>finally\<close> clause. React applies the queue when it
  renders next, and it is there, outside \<open>try\<close>, \<open>catch\<close> and \<open>finally\<close>, that it calls
  the updater. When the updater throws, the error is uncaught in the render and React
  unmounts the component: the result is \<open>Inl\<close> of the error, and no state is left.
  Otherwise the result is \<open>Inr\<close> of the state after the render.
\<close>

definition runCode_timeout :: "'v host \<Rightarrow> 'v engine \<Rightarrow> string \<Rightarrow> 'v app \<Rightarrow> 'v + 'v app" where
  "runCode_timeout h execute code0 s =
     (case runCode_try h execute code0 of
        Inr out \<Rightarrow> Inr (s\<lparr>output := out, isRunning := False\<rparr>)
      | Inl e \<Rightarrow>
          (case error_updater h e (output s) of
             Inl x \<Rightarrow> Inl x
           | Inr out \<Rightarrow> Inr (s\<lparr>output := out, isRunning := False\<rparr>)))"

text \<open>A whole run with no other event between the click and the timer.\<close>

definition runCode :: "'v host \<Rightarrow> 'v engine \<Rightarrow> 'v app \<Rightarrow> 'v + 'v app" where
  "runCode h execute s = runCode_timeout h execute (code s) (runCode_begin s)"

subsection \<open>How the output pane classifies a line\<close>

text \<open>
  The markup maps each line of \<open>output\<close> to a \<open>div\<close>: a line for which
  \<open>line.startsWith('Error:')\<close> holds gets the class \<open>output-error\<close>, else one for which
  \<open>line.startsWith('\nResult:')\<close> holds gets the class \<open>output-result\<close>, and any other
  line is shown as it is.
\<close>

definition startsWith :: "string \<Rightarrow> string \<Rightarrow> bool" where
  "startsWith ln pre = (take (length pre) ln = pre)"

datatype line_class = Output_error | Output_result | Plain

definition line_class :: "string \<Rightarrow> line_class" where
  "line_class ln =
     (if startsWith ln ''Error:'' then Output_error
      else if startsWith ln ''\<newline>Result:'' then Output_result
      else Plain)"

section \<open>Properties\<close>

subsection \<open>The capture context and the engine's calls\<close>

lemma member_context: "member (context h) f v buf = push_arg (String_of h v) buf"
  by (cases f) (simp_all add: context_def)

lemma member_context_line:
  "String_of h v = Inr ln \<Longrightarrow> member (context h) f v buf = (Inr (length buf + 1), buf @ [ln])"
  by (simp add: member_context push_arg_def push_def)

lemma member_context_throw:
  "String_of h v = Inl e \<Longrightarrow> member (context h) f v buf = (Inl e, buf)"
  by (simp add: member_context push_arg_def)

text \<open>
  Whatever the engine does, the array it leaves behind is the array it started from
  followed by the lines its calls emitted, in call order.
\<close>

lemma execute_script_buffer:
  "snd (execute_script (context h) t buf) =
     buf @ lines_emitted h (calls_made (context h) t buf)"
proof (induction t arbitrary: buf)
  case (Call f v k)
  show ?case
  proof (cases "String_of h v")
    case (Inl e)
    then show ?thesis
      using Call [of "k (Inl e)" buf] by (simp add: member_context_throw)
  next
    case (Inr ln)
    then show ?thesis
      using Call [of "k (Inr (length buf + 1))" "buf @ [ln]"] by (simp add: member_context_line)
  qed
qed simp_all

text \<open>
  The three members of the context are the same function; a call with an argument that
  has a string form appends that one line and returns the new length.
\<close>

lemma context_aliases_append_in_order:
  "print (context h) = println (context h)
   \<and> println (context h) = p (context h)
   \<and> (String_of h v = Inr ln \<longrightarrow>
        member (context h) f v buf = (Inr (length buf + 1), buf @ [ln]))
   \<and> snd (execute_script (context h) t buf) =
       buf @ lines_emitted h (calls_made (context h) t buf)"
  using execute_script_buffer [of h t buf]
  by (simp add: member_context_line) (simp add: context_def)

text \<open>The \<open>try\<close> block, by the outcome of \<open>execute\<close>.\<close>

lemma runCode_try_returned:
  assumes "fst (execute_script (context h) (execute code0) []) = Inr V"
  shows "runCode_try h execute code0 =
           (case template_of h V of
              Inl e \<Rightarrow> Inl e
            | Inr r \<Rightarrow> Inr (lines_emitted h (calls_made (context h) (execute code0) [])
                               @ [''\<newline>Result: '' @ r]))"
  using assms execute_script_buffer [of h "execute code0" "[]"]
  by (cases "execute_script (context h) (execute code0) []") (simp add: runCode_try_def)

lemma runCode_try_thrown:
  assumes "fst (execute_script (context h) (execute code0) []) = Inl e"
  shows "runCode_try h execute code0 = Inl e"
  using assms
  by (cases "execute_script (context h) (execute code0) []") (simp add: runCode_try_def)

text \<open>
  When \<open>execute\<close> throws a value whose message can be read and converted, the output is
  the single line made of a newline, \<open>Error: \<close> and the message, whatever the engine
  captured before.
\<close>

lemma runCode_failure_output:
  assumes "fst (execute_script (context h) (execute (code s)) []) = Inl e"
      and "message_of h e = Inr m" and "template_of h m = Inr t"
  shows "runCode h execute s = Inr (s\<lparr>output := [''\<newline>Error: '' @ t], isRunning := False\<rparr>)"
  using assms
  by (simp add: runCode_def runCode_timeout_def runCode_begin_def runCode_try_thrown
        error_updater_def)

lemma error_line_not_classified:
  "line_class (''\<newline>Error: '' @ m) = Plain \<and> ''\<newline>Error: '' @ m \<noteq> ''Error: '' @ m'"
  by (simp add: line_class_def startsWith_def)

text \<open>
  The run flag is on as soon as \<open>runCode\<close> has been called; and whenever the component
  is still mounted after the callback, the run flag is off.
\<close>

lemma runCode_begin_running: "isRunning (runCode_begin s)"
  by (simp add: runCode_begin_def)

lemma runCode_timeout_idle:
  "runCode_timeout h execute code0 s = Inr s' \<Longrightarrow> \<not> isRunning s'"
  by (auto simp add: runCode_timeout_def split: sum.splits)

subsection \<open>Runs in which execute returns\<close>

text \<open>
  Claim C3 says that every run in which \<open>execute\<close> returns a value \<open>V\<close> ends with the
  result line. The result line is built inside the \<open>try\<close> block, so when the template
  literal cannot convert \<open>V\<close> the run goes to the \<open>catch\<close> clause: an engine that returns
  a symbol, without having emitted anything, leaves the one error line and no result
  line.
\<close>

theorem runCode_symbol_result_gives_error_line:
  "fst (execute_script (context js) ((\<lambda>src. Return (JsSymbol ''id'')) ''sym()'') [])
     = Inr (JsSymbol ''id'')
   \<and> String_of js (JsSymbol ''id'') = Inr ''Symbol(id)''
   \<and> calls_made (context js) ((\<lambda>src. Return (JsSymbol ''id'')) ''sym()'') [] = []
   \<and> runCode js (\<lambda>src. Return (JsSymbol ''id'')) (initial ''sym()'')
     = Inr ((initial ''sym()'')
              \<lparr>output := [''\<newline>Error: Cannot convert a Symbol value to a string'']\<rparr>)
   \<and> map line_class [''\<newline>Error: Cannot convert a Symbol value to a string''] = [Plain]"
  by (simp add: runCode_def runCode_timeout_def runCode_begin_def runCode_try_def
        error_updater_def initial_def js_def line_class_def startsWith_def)

text \<open>
  Claim C3, amended. When \<open>execute\<close> returns a value \<open>V\<close> that the template literal
  converts to the string \<open>r\<close>, the run ends in the state it started from with the run flag
  off and, as output, the lines the engine emitted through \<open>print\<close>, \<open>println\<close> and \<open>p\<close>,
  in call order, followed by the one line made of a newline, \<open>Result: \<close> and \<open>r\<close>.
\<close>

theorem runCode_success_output:
  assumes "fst (execute_script (context h) (execute (code s)) []) = Inr V"
      and "template_of h V = Inr r"
  shows "runCode h execute s =
           Inr (s\<lparr>output := lines_emitted h (calls_made (context h) (execute (code s)) [])
                              @ [''\<newline>Result: '' @ r],
                  isRunning := False\<rparr>)"
  using assms
  by (simp add: runCode_def runCode_timeout_def runCode_begin_def runCode_try_returned)

text \<open>
  An engine that calls \<open>p\<close>, checks that the call returned the new length 1, then calls
  \<open>println\<close>, calls \<open>print\<close> with \<open>null\<close>, and returns a string.
\<close>

theorem runCode_success_output_witness:
  "fst (execute_script (context js)
          ((\<lambda>src. Call P (JsString ''Hello, World!'') (\<lambda>r. if r = Inr 1
                     then Call Println (JsString ''a + b = 3'')
                            (\<lambda>r. Call Print JsNull (\<lambda>r. Return (JsString ''3'')))
                     else Throw (JsError ''unexpected''))) (code (initial ''p(1);''))) [])
     = Inr (JsString ''3'')
   \<and> template_of js (JsString ''3'') = Inr ''3''
   \<and> runCode js
          (\<lambda>src. Call P (JsString ''Hello, World!'') (\<lambda>r. if r = Inr 1
                     then Call Println (JsString ''a + b = 3'')
                            (\<lambda>r. Call Print JsNull (\<lambda>r. Return (JsString ''3'')))
                     else Throw (JsError ''unexpected''))) (initial ''p(1);'')
       = Inr ((initial ''p(1);'')
                \<lparr>output := [''Hello, World!'', ''a + b = 3'', ''null'', ''\<newline>Result: 3'']\<rparr>)"
  using runCode_success_output [of js "\<lambda>src. Call P (JsString ''Hello, World!'') (\<lambda>r. if r = Inr 1
                     then Call Println (JsString ''a + b = 3'')
                            (\<lambda>r. Call Print JsNull (\<lambda>r. Return (JsString ''3'')))
                     else Throw (JsError ''unexpected''))" "initial ''p(1);''" "JsString ''3''" "''3''"]
  by (simp add: initial_def js_def context_def push_arg_def push_def)

subsection \<open>Runs in which execute throws\<close>

text \<open>
  Claim C1 says that a run in which \<open>execute\<close> throws an error with message \<open>M\<close> ends with
  the line \<open>Error: M\<close>. Evaluated on an engine that throws \<open>new Error("division by zero")\<close>
  at once, whatever the text, the code leaves one line, and that line starts with a
  newline character: it is not the line \<open>Error: division by zero\<close>, and the output pane
  does not take it for an error line (its test is \<open>startsWith('Error:')\<close>), although
  there is no result line either.
\<close>

theorem runCode_error_line_has_newline:
  "runCode js (\<lambda>src. Throw (JsError ''division by zero'')) (initial src0)
     = Inr ((initial src0)\<lparr>output := [''\<newline>Error: division by zero'']\<rparr>)
   \<and> ''\<newline>Error: division by zero'' \<noteq> ''Error: division by zero''
   \<and> map line_class [''\<newline>Error: division by zero''] = [Plain]"
  by (simp add: runCode_def runCode_timeout_def runCode_begin_def runCode_try_def
        error_updater_def initial_def js_def line_class_def startsWith_def)

text \<open>
  Claim C2 says that the lines captured before a failure stay in the output. Evaluated on
  the scenario of the claim (the engine calls \<open>p\<close> with \<open>x = 5\<close>, then throws
  \<open>new Error("division by zero")\<close>), the code leaves the error line alone: the captured
  line was pushed to the array \<open>currentOutput\<close>, which only the success branch copies into
  \<open>output\<close>.
\<close>

theorem runCode_failure_drops_captured_lines:
  "calls_made (context js)
      (Call P (JsString ''x = 5'') (\<lambda>r. Throw (JsError ''division by zero''))) []
     = [(P, JsString ''x = 5'')]
   \<and> lines_emitted js [(P, JsString ''x = 5'')] = [''x = 5'']
   \<and> runCode js (\<lambda>src. Call P (JsString ''x = 5'') (\<lambda>r. Throw (JsError ''division by zero'')))
        (initial src0)
     = Inr ((initial src0)\<lparr>output := [''\<newline>Error: division by zero'']\<rparr>)
   \<and> [''\<newline>Error: division by zero''] \<noteq> [''x = 5'', ''Error: division by zero'']
   \<and> ''x = 5'' \<notin> set [''\<newline>Error: division by zero'']"
  by (simp add: runCode_def runCode_timeout_def runCode_begin_def runCode_try_def
        error_updater_def initial_def js_def context_def push_arg_def push_def)

text \<open>
  Claim C9 says that each capture function appends its line to the output, for every
  run. Evaluated on a run where the engine calls \<open>print\<close> with \<open>a\<close> and \<open>println\<close> with \<open>b\<close>
  and then throws: both lines are in the array \<open>currentOutput\<close>, in call order, and
  neither is in the output, because the \<open>catch\<close> clause does not copy the array.
\<close>

theorem capture_lines_absent_after_failure:
  "calls_made (context js)
      (Call Print (JsString ''a'')
         (\<lambda>r. Call Println (JsString ''b'') (\<lambda>r. Throw (JsError ''boom'')))) []
     = [(Print, JsString ''a''), (Println, JsString ''b'')]
   \<and> snd (execute_script (context js)
      (Call Print (JsString ''a'')
         (\<lambda>r. Call Println (JsString ''b'') (\<lambda>r. Throw (JsError ''boom'')))) [])
     = [''a'', ''b'']
   \<and> runCode js
        (\<lambda>src. Call Print (JsString ''a'')
           (\<lambda>r. Call Println (JsString ''b'') (\<lambda>r. Throw (JsError ''boom''))))
        (initial src0)
     = Inr ((initial src0)\<lparr>output := [''\<newline>Error: boom'']\<rparr>)
   \<and> ''a'' \<notin> set [''\<newline>Error: boom'']
   \<and> ''b'' \<notin> set [''\<newline>Error: boom'']"
  by (simp add: runCode_def runCode_timeout_def runCode_begin_def runCode_try_def
        error_updater_def initial_def js_def context_def push_arg_def push_def)

subsection \<open>The run state\<close>

text \<open>
  Claim C5 says that the run state is idle after every run, on every exit path.
  Evaluated on an engine that throws \<open>null\<close>: the \<open>catch\<close> clause queues its updater and
  the \<open>finally\<close> clause queues \<open>setIsRunning(false)\<close>, but the updater reads \<open>e.message\<close>
  only when React applies it, the read throws, and the component is unmounted. The run
  does not end in a state whose run flag is off: it ends in no state at all.
\<close>

theorem runCode_thrown_null_unmounts:
  "runCode js (\<lambda>src. Throw JsNull) (initial src0) = Inl (cannot_read_message ''null'')
   \<and> (\<nexists>s'. runCode js (\<lambda>src. Throw JsNull) (initial src0) = Inr s' \<and> \<not> isRunning s')"
  by (simp add: runCode_def runCode_timeout_def runCode_begin_def runCode_try_def
        error_updater_def initial_def js_def)

text \<open>
  Claim C8. The output is empty as soon as \<open>runCode\<close> has been called, before the timer
  runs the engine; and how the whole run ends (the error that unmounts the component,
  or the output of the final state) does not depend on what the output held before it:
  no earlier line is carried over.
\<close>

theorem runCode_resets_output:
  "output (runCode_begin s) = []
   \<and> map_sum (\<lambda>x. x) output (runCode h execute (s\<lparr>output := previous\<rparr>))
     = map_sum (\<lambda>x. x) output (runCode h execute s)"
  by (simp add: runCode_def runCode_timeout_def runCode_begin_def split: sum.splits)

subsection \<open>Analysis\<close>

text \<open>
  Claim C4. For every text, every analyzer and every state, \<open>analyzeCode\<close> completes
  normally: no exception reaches its caller. When the analyzer throws, the markers on
  the editor's model are the ones that were there before.
\<close>

theorem analyzeCode_absorbs_failure:
  "\<exists>s'. analyzeCode analyze T s = Inr s'
      \<and> (\<forall>e. analyze T = Inl e \<longrightarrow> modelMarkers s' = modelMarkers s)"
  by (cases "analyze T") (simp_all add: analyzeCode_def analyzeCode_try_def)

text \<open>An analyzer that throws, on an editor that shows one marker.\<close>

theorem analyzeCode_absorbs_failure_witness:
  "(\<lambda>txt. Inl (JsError ''Unexpected token'')) ''let a = ;''
     = (Inl (JsError ''Unexpected token'') :: jsval + diagnostic list)
   \<and> (\<exists>s'. analyzeCode (\<lambda>txt. Inl (JsError ''Unexpected token'')) ''let a = ;''
          ((initial ''let a = 1;'')
             \<lparr>modelMarkers := [toMarker \<lparr>line = 2, message = ''unused'', severity = 2\<rparr>]\<rparr>) = Inr s'
        \<and> modelMarkers s' = [toMarker \<lparr>line = 2, message = ''unused'', severity = 2\<rparr>])"
  using analyzeCode_absorbs_failure [of "\<lambda>txt. Inl (JsError ''Unexpected token'')" "''let a = ;''"
      "(initial ''let a = 1;'')
         \<lparr>modelMarkers := [toMarker \<lparr>line = 2, message = ''unused'', severity = 2\<rparr>]\<rparr>"]
  by simp

text \<open>
  Claim C6. The severity code 1 maps to \<open>Error\<close>, every other integer to \<open>Warning\<close>, and
  no code maps to one of the other two members of \<open>MarkerSeverity\<close>.
\<close>

theorem markerSeverity_total:
  "markerSeverity 1 = Error
   \<and> (sev \<noteq> 1 \<longrightarrow> markerSeverity sev = Warning)
   \<and> markerSeverity sev \<noteq> Hint \<and> markerSeverity sev \<noteq> Info
   \<and> marker_severity (toMarker d) = markerSeverity (severity d)"
  by (simp add: markerSeverity_def toMarker_def)

theorem markerSeverity_total_witness:
  "(2::int) \<noteq> 1 \<and> markerSeverity 2 = Warning \<and> (- 7::int) \<noteq> 1 \<and> markerSeverity (- 7) = Warning"
  using markerSeverity_total [of 2] markerSeverity_total [of "- 7"] by simp

text \<open>
  Claim C7. The marker of a diagnostic starts and ends on the diagnostic's line, spans
  the columns 1 to 1000 whatever the line holds, and carries the diagnostic's message
  and its mapped severity. Whatever list of diagnostics the analyzer returns,
  \<open>analyzeCode\<close> replaces the editor's markers by the markers of these diagnostics, one
  for each, in the same order. When the analyzer reports the one diagnostic of line 3,
  message "unexpected token" and severity 1, the editor's markers become the one marker
  of the claim.
\<close>

theorem toMarker_fields:
  "startLineNumber (toMarker d) = line d \<and> endLineNumber (toMarker d) = line d
   \<and> startColumn (toMarker d) = 1 \<and> endColumn (toMarker d) = 1000
   \<and> marker_message (toMarker d) = message d
   \<and> marker_severity (toMarker d) = markerSeverity (severity d)
   \<and> (analyze T = Inr ds \<longrightarrow>
        analyzeCode analyze T s = Inr (s\<lparr>modelMarkers := map toMarker ds\<rparr>))
   \<and> analyzeCode (\<lambda>txt. Inr [\<lparr>line = 3, message = ''unexpected token'', severity = 1\<rparr>]) T s
       = Inr (s\<lparr>modelMarkers :=
                [\<lparr>startLineNumber = 3, startColumn = 1, endLineNumber = 3, endColumn = 1000,
                  marker_message = ''unexpected token'', marker_severity = Error\<rparr>]\<rparr>)"
  by (simp add: toMarker_def analyzeCode_def analyzeCode_try_def markerSeverity_def)

text \<open>
  An analyzer that reports two diagnostics on the text \<open>let\<close> and throws on any other
  text, on an editor that shows a marker left by an earlier analysis.
\<close>

theorem toMarker_fields_witness:
  "(\<lambda>txt. if txt = ''let''
           then Inr [\<lparr>line = 3, message = ''unexpected token'', severity = 1\<rparr>,
                     \<lparr>line = 7, message = ''unused variable'', severity = 2\<rparr>]
           else Inl JsNull) ''let''
     = Inr [\<lparr>line = 3, message = ''unexpected token'', severity = 1\<rparr>,
            \<lparr>line = 7, message = ''unused variable'', severity = 2\<rparr>]
   \<and> analyzeCode
        (\<lambda>txt. if txt = ''let''
           then Inr [\<lparr>line = 3, message = ''unexpected token'', severity = 1\<rparr>,
                     \<lparr>line = 7, message = ''unused variable'', severity = 2\<rparr>]
           else Inl JsNull) ''let''
        ((initial ''le'')
           \<lparr>modelMarkers := [toMarker \<lparr>line = 1, message = ''old'', severity = 2\<rparr>]\<rparr>)
     = Inr ((initial ''le'')\<lparr>modelMarkers :=
          [\<lparr>startLineNumber = 3, startColumn = 1, endLineNumber = 3, endColumn = 1000,
            marker_message = ''unexpected token'', marker_severity = Error\<rparr>,
           \<lparr>startLineNumber = 7, startColumn = 1, endLineNumber = 7, endColumn = 1000,
            marker_message = ''unused variable'', marker_severity = Warning\<rparr>]\<rparr>)"
  using toMarker_fields [of _
        "\<lambda>txt. if txt = ''let''
           then Inr [\<lparr>line = 3, message = ''unexpected token'', severity = 1\<rparr>,
                     \<lparr>line = 7, message = ''unused variable'', severity = 2\<rparr>]
           else Inl JsNull"
        "''let''"
        "[\<lparr>line = 3, message = ''unexpected token'', severity = 1\<rparr>,
          \<lparr>line = 7, message = ''unused variable'', severity = 2\<rparr>]"
        "(initial ''le'')
           \<lparr>modelMarkers := [toMarker \<lparr>line = 1, message = ''old'', severity = 2\<rparr>]\<rparr>"]
  by (simp add: toMarker_def markerSeverity_def initial_def)

subsection \<open>Change events\<close>

text \<open>
  Claim C10. A change event that carries \<open>undefined\<close> leaves the whole state as it was,
  for every analyzer: the text, the markers and the log are untouched, so no analysis
  took place. An event that carries a text stores it, and on a mounted editor the
  handler goes on as \<open>analyzeCode\<close> on that text.
\<close>

theorem handleEditorChange_undefined:
  "handleEditorChange analyze None s = Inr s
   \<and> (\<exists>s'. handleEditorChange analyze (Some txt) s = Inr s' \<and> code s' = txt)
   \<and> (editorRef s \<and> monacoRef s \<longrightarrow>
        handleEditorChange analyze (Some txt) s = analyzeCode analyze txt (s\<lparr>code := txt\<rparr>))"
  by (cases "analyze txt")
    (auto simp add: handleEditorChange_def analyzeCode_def analyzeCode_try_def Let_def)

theorem handleEditorChange_undefined_witness:
  "editorRef ((initial ''a'' :: jsval app)\<lparr>editorRef := True, monacoRef := True\<rparr>)
   \<and> monacoRef ((initial ''a'' :: jsval app)\<lparr>editorRef := True, monacoRef := True\<rparr>)
   \<and> handleEditorChange (\<lambda>txt. Inr [\<lparr>line = 1, message = ''m'', severity = 1\<rparr>]) (Some ''ab'')
         ((initial ''a'' :: jsval app)\<lparr>editorRef := True, monacoRef := True\<rparr>)
       = Inr ((initial ''ab'')\<lparr>editorRef := True, monacoRef := True,
                modelMarkers := [toMarker \<lparr>line = 1, message = ''m'', severity = 1\<rparr>]\<rparr>)"
  using handleEditorChange_undefined [of "\<lambda>txt. Inr [\<lparr>line = 1, message = ''m'', severity = 1\<rparr>]"
       "(initial ''a'' :: jsval app)\<lparr>editorRef := True, monacoRef := True\<rparr>" "''ab''"]
  by (simp add: initial_def analyzeCode_def analyzeCode_try_def)

end
